theory Spec2Isabelle
  imports Complex_Main "HOL-Library.AList"
begin

section \<open>Python values, dictionaries and exceptions\<close>

text \<open>
  Both scripts work on what \<^verbatim>\<open>json\<close> produces: \<^verbatim>\<open>None\<close>, booleans, unbounded
  integers, floats, strings, lists and dictionaries with string keys. A dictionary keeps
  its insertion order, so it is an association list; \<^verbatim>\<open>d[k] = v\<close> replaces the value
  in place when \<open>k\<close> is a key and appends the pair otherwise, which is
  \<^const>\<open>AList.update\<close>, and \<^verbatim>\<open>k in d\<close> and \<^verbatim>\<open>d[k]\<close> read it with \<^const>\<open>map_of\<close>.

  A \<^typ>\<open>char\<close> stands for one code point below 256 (ASCII and Latin-1). A float is
  kept by its rational value; no decision of the code looks at a float beyond its
  truth value.
\<close>

datatype pyval =
    PNone
  | PBool bool
  | PInt int
  | PFloat rat
  | PStr string
  | PList "pyval list"
  | PDict "(string \<times> pyval) list"

type_synonym pydict = "(string \<times> pyval) list"

text \<open>
  The exceptions the two scripts can meet, each a subclass of \<^verbatim>\<open>Exception\<close>.
  \<open>KeyError\<close> carries the missing key, the others their message, worded as
  CPython 3.10 words it; no statement below depends on the wording of a message.
\<close>

datatype exn =
    KeyError string
  | TypeError string
  | AttributeError string
  | ValueError string
  | JSONDecodeError string
  | FileNotFoundError
  | PermissionError
  | IsADirectoryError
  | UnicodeDecodeError string
  | OSError string

text \<open>\<^verbatim>\<open>str(e)\<close>: a \<open>KeyError\<close> prints the \<^verbatim>\<open>repr\<close> of its key, which for the
  keys of these scripts is the key between single quotes.\<close>

fun str_exn :: "exn \<Rightarrow> string" where
  "str_exn (KeyError k) = [CHR 0x27] @ k @ [CHR 0x27]"
| "str_exn (TypeError m) = m"
| "str_exn (AttributeError m) = m"
| "str_exn (ValueError m) = m"
| "str_exn (JSONDecodeError m) = m"
| "str_exn FileNotFoundError = ''[Errno 2] No such file or directory''"
| "str_exn PermissionError = ''[Errno 13] Permission denied''"
| "str_exn IsADirectoryError = ''[Errno 21] Is a directory''"
| "str_exn (UnicodeDecodeError m) = m"
| "str_exn (OSError m) = m"

fun type_name :: "pyval \<Rightarrow> string" where
  "type_name PNone = ''NoneType''"
| "type_name (PBool _) = ''bool''"
| "type_name (PInt _) = ''int''"
| "type_name (PFloat _) = ''float''"
| "type_name (PStr _) = ''str''"
| "type_name (PList _) = ''list''"
| "type_name (PDict _) = ''dict''"

text \<open>Truth value of a value, as \<^verbatim>\<open>not body\<close> tests it.\<close>

fun truthy :: "pyval \<Rightarrow> bool" where
  "truthy PNone = False"
| "truthy (PBool b) = b"
| "truthy (PInt n) = (n \<noteq> 0)"
| "truthy (PFloat r) = (r \<noteq> 0)"
| "truthy (PStr s) = (s \<noteq> [])"
| "truthy (PList xs) = (xs \<noteq> [])"
| "truthy (PDict d) = (d \<noteq> [])"

text \<open>\<^verbatim>\<open>d[key]\<close> on a dictionary: \<open>KeyError\<close> when the key is absent.\<close>

definition dict_getitem :: "pydict \<Rightarrow> string \<Rightarrow> exn + pyval" where
  "dict_getitem d key = (case map_of d key of None \<Rightarrow> Inl (KeyError key) | Some v \<Rightarrow> Inr v)"

text \<open>\<^verbatim>\<open>v[key]\<close> with a string key on any value: only a dictionary can be subscripted
  by a string.\<close>

fun py_getitem :: "pyval \<Rightarrow> string \<Rightarrow> exn + pyval" where
  "py_getitem (PDict d) key = dict_getitem d key"
| "py_getitem (PStr s) key = Inl (TypeError ''string indices must be integers'')"
| "py_getitem (PList xs) key = Inl (TypeError ''list indices must be integers or slices, not str'')"
| "py_getitem v key = Inl (TypeError ([CHR 0x27] @ type_name v @ [CHR 0x27] @ '' object is not subscriptable''))"

definition no_attribute :: "pyval \<Rightarrow> string \<Rightarrow> exn" where
  "no_attribute v attr =
     AttributeError ([CHR 0x27] @ type_name v @ [CHR 0x27] @ '' object has no attribute ''
                     @ [CHR 0x27] @ attr @ [CHR 0x27])"

text \<open>\<^verbatim>\<open>v.get(key, default)\<close>: only a dictionary has the method.\<close>

fun py_get :: "pyval \<Rightarrow> string \<Rightarrow> pyval \<Rightarrow> exn + pyval" where
  "py_get (PDict d) key dflt = Inr (case map_of d key of None \<Rightarrow> dflt | Some v \<Rightarrow> v)"
| "py_get v key dflt = Inl (no_attribute v ''get'')"

text \<open>\<^verbatim>\<open>s.startswith(p)\<close> on strings, and on any value: only a string has the method.\<close>

definition startswith :: "string \<Rightarrow> string \<Rightarrow> bool" where
  "startswith s p = (take (length p) s = p)"

fun py_startswith :: "pyval \<Rightarrow> string \<Rightarrow> exn + bool" where
  "py_startswith (PStr s) p = Inr (startswith s p)"
| "py_startswith v p = Inl (no_attribute v ''startswith'')"

subsection \<open>Digits\<close>

text \<open>
  \<^verbatim>\<open>str.isdigit\<close> is true of a non-empty string whose characters all have the
  Unicode property Numeric_Type=Digit or Decimal. Below code point 256 these are the
  ten ASCII digits and the superscripts U+00B2, U+00B3 and U+00B9. \<^verbatim>\<open>int(s)\<close> reads
  decimal characters only: of the strings \<^verbatim>\<open>isdigit\<close> accepts it converts those made
  of ASCII digits (leading zeros dropped) and raises \<open>ValueError\<close> on one that holds a
  superscript. Integers are unbounded; the limit an interpreter may put on the length of
  a numeral it converts is a setting of the interpreter and is not modelled.
\<close>

definition is_decimal_char :: "char \<Rightarrow> bool" where
  "is_decimal_char c = (48 \<le> (of_char c :: nat) \<and> (of_char c :: nat) \<le> 57)"

definition is_digit_char :: "char \<Rightarrow> bool" where
  "is_digit_char c = (is_decimal_char c \<or> c = CHR 0xB2 \<or> c = CHR 0xB3 \<or> c = CHR 0xB9)"

definition isdigit :: "string \<Rightarrow> bool" where
  "isdigit s = (s \<noteq> [] \<and> list_all is_digit_char s)"

definition digit_val :: "char \<Rightarrow> int" where
  "digit_val c = int (of_char c) - 48"

definition py_int :: "string \<Rightarrow> exn + int" where
  "py_int s =
     (if s \<noteq> [] \<and> list_all is_decimal_char s
      then Inr (foldl (\<lambda>acc c. 10 * acc + digit_val c) 0 s)
      else Inl (ValueError (''invalid literal for int() with base 10: '' @ [CHR 0x27] @ s @ [CHR 0x27])))"

text \<open>\<^verbatim>\<open>isinstance(value, str) and value.isdigit()\<close>\<close>

fun is_digit_str :: "pyval \<Rightarrow> bool" where
  "is_digit_str (PStr s) = isdigit s"
| "is_digit_str v = False"


section \<open>What the scripts read from outside\<close>

text \<open>
  The file system, the \<^verbatim>\<open>json\<close> parser, the clock and the identifier generator are not
  code of the repository; the scripts are modelled for any behaviour of theirs.
  \<^item> \<open>fs_read path\<close> is what \<^verbatim>\<open>open(path, 'r')\<close> followed by reading the file gives:
    the text, or the exception raised (\<open>FileNotFoundError\<close> when no file is at the path).
  \<^item> \<open>json_parse text\<close> is \<^verbatim>\<open>json.loads(text)\<close>: the value, or the message of the
    \<open>JSONDecodeError\<close>.
  \<^item> \<open>time_time n\<close> is \<^verbatim>\<open>int(time.time())\<close> at the clock's reading number \<open>n\<close>;
    \<open>now_iso n\<close> is \<^verbatim>\<open>datetime.now().isoformat()\<close> at reading number \<open>n\<close>;
    \<open>uuid4 n\<close> is \<^verbatim>\<open>str(uuid.uuid4())\<close> at draw number \<open>n\<close>. Every call
    takes the next reading, so a caller passes on how many were taken.
  \<^item> \<open>put_item_raises item\<close> is the exception \<^verbatim>\<open>table.put_item(Item=item)\<close> raises, if
    it raises one: the client serialises the item before it writes and refuses a value it
    cannot store (a float, a number of more than 38 digits).
\<close>

record env =
  fs_read :: "string \<Rightarrow> exn + string"
  json_parse :: "string \<Rightarrow> string + pyval"
  time_time :: "nat \<Rightarrow> int"
  now_iso :: "nat \<Rightarrow> string"
  uuid4 :: "nat \<Rightarrow> string"
  put_item_raises :: "pydict \<Rightarrow> exn option"

definition json_loads :: "env \<Rightarrow> string \<Rightarrow> exn + pyval" where
  "json_loads e text = (case json_parse e text of Inl msg \<Rightarrow> Inl (JSONDecodeError msg) | Inr v \<Rightarrow> Inr v)"

section \<open>The record transformer (sample.py)\<close>

text \<open>
  \<^verbatim>\<open>_load_config\<close>: the body of the \<^verbatim>\<open>try\<close> opens the file and parses it; the
  handler catches \<open>FileNotFoundError\<close> only and returns the empty dictionary; any other
  exception leaves the method.
\<close>

definition load_config_body :: "env \<Rightarrow> string \<Rightarrow> exn + pyval" where
  "load_config_body e config_path =
     (case fs_read e config_path of Inl x \<Rightarrow> Inl x | Inr text \<Rightarrow> json_loads e text)"

definition load_config :: "env \<Rightarrow> string \<Rightarrow> exn + pyval" where
  "load_config e config_path =
     (case load_config_body e config_path of
        Inl FileNotFoundError \<Rightarrow> Inr (PDict [])
      | Inl x \<Rightarrow> Inl x
      | Inr v \<Rightarrow> Inr v)"

text \<open>\<^verbatim>\<open>DataProcessor.__init__\<close>: the object holds the path and the loaded
  configuration; a failing load fails the construction.\<close>

record DataProcessor =
  config_path :: string
  config :: pyval

definition init :: "env \<Rightarrow> string \<Rightarrow> exn + DataProcessor" where
  "init e path =
     (case load_config e path of
        Inl x \<Rightarrow> Inl x
      | Inr c \<Rightarrow> Inr \<lparr>config_path = path, config = c\<rparr>)"

text \<open>
  \<^verbatim>\<open>_validate_item\<close>: \<^verbatim>\<open>all(field in item for field in required_fields)\<close>. The
  generator iterates over whatever the configuration holds under \<open>required_fields\<close>
  (a list gives its elements, a string its characters, a dictionary its keys, anything
  else is not iterable); \<^verbatim>\<open>field in item\<close> hashes the field, which a list or a
  dictionary does not allow, and \<^verbatim>\<open>all\<close> stops at the first field that is missing.
\<close>

fun py_iter :: "pyval \<Rightarrow> exn + pyval list" where
  "py_iter (PList xs) = Inr xs"
| "py_iter (PStr s) = Inr (map (\<lambda>c. PStr [c]) s)"
| "py_iter (PDict d) = Inr (map (\<lambda>kv. PStr (fst kv)) d)"
| "py_iter v = Inl (TypeError ([CHR 0x27] @ type_name v @ [CHR 0x27] @ '' object is not iterable''))"

fun py_in_dict :: "pyval \<Rightarrow> pydict \<Rightarrow> exn + bool" where
  "py_in_dict (PStr s) item = Inr (map_of item s \<noteq> None)"
| "py_in_dict (PList xs) item = Inl (TypeError (''unhashable type: '' @ [CHR 0x27] @ ''list'' @ [CHR 0x27]))"
| "py_in_dict (PDict d) item = Inl (TypeError (''unhashable type: '' @ [CHR 0x27] @ ''dict'' @ [CHR 0x27]))"
| "py_in_dict v item = Inr False"

fun all_in :: "pyval list \<Rightarrow> pydict \<Rightarrow> exn + bool" where
  "all_in [] item = Inr True"
| "all_in (field # others) item =
     (case py_in_dict field item of
        Inl x \<Rightarrow> Inl x
      | Inr b \<Rightarrow> if b then all_in others item else Inr False)"

definition validate_item :: "pyval \<Rightarrow> pydict \<Rightarrow> exn + bool" where
  "validate_item cfg item =
     (case py_get cfg ''required_fields'' (PList []) of
        Inl x \<Rightarrow> Inl x
      | Inr required_fields \<Rightarrow>
          (case py_iter required_fields of
             Inl x \<Rightarrow> Inl x
           | Inr names \<Rightarrow> all_in names item))"

text \<open>
  \<^verbatim>\<open>_transform_item\<close>. The loop runs over the entries of the dictionary and assigns
  to the key it is at, so the dictionary keeps its size and every entry is visited once.
  The function changes the dictionary it is given and returns that same object; the
  model returns the new contents, and the number of clock readings taken so far.
  Every record of a batch is taken to be an object of its own.
\<close>

fun convert_items :: "(string \<times> pyval) list \<Rightarrow> pydict \<Rightarrow> exn + pydict" where
  "convert_items [] item = Inr item"
| "convert_items ((key, v) # rest) item =
     (case v of
        PStr s \<Rightarrow>
          (if isdigit s
           then (case py_int s of
                   Inl x \<Rightarrow> Inl x
                 | Inr n \<Rightarrow> convert_items rest (AList.update key (PInt n) item))
           else convert_items rest item)
      | _ \<Rightarrow> convert_items rest item)"

definition add_timestamp :: "env \<Rightarrow> nat \<Rightarrow> pydict \<Rightarrow> pydict \<times> nat" where
  "add_timestamp e n item =
     (if map_of item ''timestamp'' = None
      then (AList.update ''timestamp'' (PInt (time_time e n)) item, Suc n)
      else (item, n))"

definition transform_item :: "env \<Rightarrow> nat \<Rightarrow> pydict \<Rightarrow> exn + (pydict \<times> nat)" where
  "transform_item e n item =
     (case add_timestamp e n item of
        (item1, n1) \<Rightarrow>
          (case convert_items item1 item1 of
             Inl x \<Rightarrow> Inl x
           | Inr item2 \<Rightarrow> Inr (item2, n1)))"

text \<open>\<^verbatim>\<open>process_data\<close>: the loop over the batch, with the list \<open>processed\<close> built by
  \<^verbatim>\<open>append\<close>. An exception of the validation or of the transformation ends it.\<close>

fun process_loop :: "env \<Rightarrow> pyval \<Rightarrow> nat \<Rightarrow> pydict list \<Rightarrow> pydict list \<Rightarrow> exn + (pydict list \<times> nat)" where
  "process_loop e cfg n [] processed = Inr (processed, n)"
| "process_loop e cfg n (item # rest) processed =
     (case validate_item cfg item of
        Inl x \<Rightarrow> Inl x
      | Inr ok \<Rightarrow>
          if ok
          then (case transform_item e n item of
                  Inl x \<Rightarrow> Inl x
                | Inr (processed_item, n') \<Rightarrow> process_loop e cfg n' rest (processed @ [processed_item]))
          else process_loop e cfg n rest processed)"

definition process_data :: "env \<Rightarrow> pyval \<Rightarrow> nat \<Rightarrow> pydict list \<Rightarrow> exn + (pydict list \<times> nat)" where
  "process_data e cfg n data = process_loop e cfg n data []"

section \<open>The resource handler (lambda_function.py)\<close>

text \<open>
  The table is the external key-value store, keyed by the attribute \<open>id\<close>: the model
  keeps it as an association list from the key's value to the stored item, read by
  \<^const>\<open>map_of\<close>, written by \<^const>\<open>AList.update\<close> (\<^verbatim>\<open>put_item\<close> replaces an item of
  the same key) and \<^const>\<open>AList.delete\<close>. A read sees every earlier write, and the calls
  that read or delete by key succeed; \<^verbatim>\<open>put_item\<close> raises on an item it cannot store
  (\<open>put_item_raises\<close>) and then stores nothing. What the service adds to that
  (throttling, replicas) is outside the handler. The world of the handler is the table together with the number of
  clock readings and of identifiers drawn so far.
\<close>

record world =
  table :: "(pyval \<times> pydict) list"
  clock_reads :: nat
  uuid_draws :: nat

text \<open>
  The body of an envelope is the text \<^verbatim>\<open>json.dumps\<close> makes of a value (with
  \<^verbatim>\<open>default=str\<close> where the source says so, which changes nothing on JSON values); it
  is kept as the value it encodes.
\<close>

datatype json_text = json_dumps pyval

record response =
  statusCode :: int
  headers :: "(string \<times> string) list"
  body :: json_text

text \<open>An operation returns an envelope or raises, and leaves the world it reached.\<close>

type_synonym outcome = "(exn + response) \<times> world"

definition get_all_items :: "world \<Rightarrow> outcome" where
  "get_all_items w =
     (let items = map snd (table w) in
      (Inr \<lparr>statusCode = 200,
            headers = [(''Content-Type'', ''application/json''),
                       (''Access-Control-Allow-Origin'', ''*'')],
            body = json_dumps (PDict [(''items'', PList (map PDict items)),
                                      (''count'', PInt (int (length items)))])\<rparr>, w))"

text \<open>\<^verbatim>\<open>json.loads(body)\<close> on the value the event holds under \<open>body\<close>: anything but a
  string is refused with a \<open>TypeError\<close>.\<close>

fun loads_value :: "env \<Rightarrow> pyval \<Rightarrow> exn + pyval" where
  "loads_value e (PStr s) = json_loads e s"
| "loads_value e v =
     Inl (TypeError (''the JSON object must be str, bytes or bytearray, not '' @ type_name v))"

text \<open>
  \<^verbatim>\<open>create_item\<close>. The dictionary display is evaluated entry by entry: the identifier
  is drawn, \<open>name\<close> and \<open>description\<close> are read from the parsed body, then
  \<^verbatim>\<open>datetime.now()\<close> is called for \<open>created_at\<close> and called again for \<open>updated_at\<close>.
  Then \<^verbatim>\<open>put_item\<close> stores the item or raises.
\<close>

definition create_item :: "env \<Rightarrow> world \<Rightarrow> pyval \<Rightarrow> outcome" where
  "create_item e w request_body =
     (if \<not> truthy request_body
      then (Inr \<lparr>statusCode = 400,
                 headers = [(''Content-Type'', ''application/json''),
                            (''Access-Control-Allow-Origin'', ''*'')],
                 body = json_dumps (PDict [(''error'', PStr ''Request body is required'')])\<rparr>, w)
      else
        (case loads_value e request_body of
           Inl x \<Rightarrow> (Inl x, w)
         | Inr data \<Rightarrow>
             (let uid = uuid4 e (uuid_draws w);
                  w1 = w\<lparr>uuid_draws := Suc (uuid_draws w)\<rparr>
              in case py_get data ''name'' (PStr []) of
                   Inl x \<Rightarrow> (Inl x, w1)
                 | Inr item_name \<Rightarrow>
                     (case py_get data ''description'' (PStr []) of
                        Inl x \<Rightarrow> (Inl x, w1)
                      | Inr description \<Rightarrow>
                          (let created_at = now_iso e (clock_reads w1);
                               updated_at = now_iso e (Suc (clock_reads w1));
                               w2 = w1\<lparr>clock_reads := Suc (Suc (clock_reads w1))\<rparr>;
                               item = [(''id'', PStr uid),
                                       (''name'', item_name),
                                       (''description'', description),
                                       (''created_at'', PStr created_at),
                                       (''updated_at'', PStr updated_at)];
                               w3 = w2\<lparr>table := AList.update (PStr uid) item (table w2)\<rparr>
                           in case put_item_raises e item of
                                Some x \<Rightarrow> (Inl x, w2)
                              | None \<Rightarrow>
                                  (Inr \<lparr>statusCode = 201,
                                        headers = [(''Content-Type'', ''application/json''),
                                                   (''Access-Control-Allow-Origin'', ''*'')],
                                        body = json_dumps (PDict item)\<rparr>, w3))))))"

definition get_item :: "world \<Rightarrow> pyval \<Rightarrow> outcome" where
  "get_item w item_id =
     (case map_of (table w) item_id of
        None \<Rightarrow>
          (Inr \<lparr>statusCode = 404,
                headers = [(''Content-Type'', ''application/json''),
                           (''Access-Control-Allow-Origin'', ''*'')],
                body = json_dumps (PDict [(''error'', PStr ''Item not found'')])\<rparr>, w)
      | Some item \<Rightarrow>
          (Inr \<lparr>statusCode = 200,
                headers = [(''Content-Type'', ''application/json''),
                           (''Access-Control-Allow-Origin'', ''*'')],
                body = json_dumps (PDict item)\<rparr>, w))"

text \<open>\<^verbatim>\<open>delete_item\<close>: the lookup (the source's comment: check if the item exists
  first), then the deletion, two calls to the table.\<close>

definition delete_item :: "world \<Rightarrow> pyval \<Rightarrow> outcome" where
  "delete_item w item_id =
     (case map_of (table w) item_id of
        None \<Rightarrow>
          (Inr \<lparr>statusCode = 404,
                headers = [(''Content-Type'', ''application/json''),
                           (''Access-Control-Allow-Origin'', ''*'')],
                body = json_dumps (PDict [(''error'', PStr ''Item not found'')])\<rparr>, w)
      | Some item \<Rightarrow>
          (Inr \<lparr>statusCode = 200,
                headers = [(''Content-Type'', ''application/json''),
                           (''Access-Control-Allow-Origin'', ''*'')],
                body = json_dumps (PDict [(''message'', PStr ''Item deleted successfully'')])\<rparr>,
           w\<lparr>table := AList.delete item_id (table w)\<rparr>))"

text \<open>\<^verbatim>\<open>event['pathParameters']['id']\<close>\<close>

definition path_id :: "pydict \<Rightarrow> exn + pyval" where
  "path_id event =
     (case dict_getitem event ''pathParameters'' of
        Inl x \<Rightarrow> Inl x
      | Inr params \<Rightarrow> py_getitem params ''id'')"

text \<open>\<^verbatim>\<open>http_method == m and path.startswith('/items/')\<close>: the method is compared
  first, and the path is asked for its prefix only when the method is \<open>m\<close>.\<close>

definition method_and_prefix :: "pyval \<Rightarrow> string \<Rightarrow> pyval \<Rightarrow> exn + bool" where
  "method_and_prefix http_method m path =
     (if http_method = PStr m then py_startswith path ''/items/'' else Inr False)"

text \<open>The body of the handler's \<^verbatim>\<open>try\<close>: the chain of tests, in the source's order.\<close>

definition dispatch :: "env \<Rightarrow> world \<Rightarrow> pydict \<Rightarrow> pyval \<Rightarrow> pyval \<Rightarrow> outcome" where
  "dispatch e w event http_method path =
     (if http_method = PStr ''GET'' \<and> path = PStr ''/items'' then get_all_items w
      else if http_method = PStr ''POST'' \<and> path = PStr ''/items'' then
        (case dict_getitem event ''body'' of
           Inl x \<Rightarrow> (Inl x, w)
         | Inr request_body \<Rightarrow> create_item e w request_body)
      else
        (case method_and_prefix http_method ''GET'' path of
           Inl x \<Rightarrow> (Inl x, w)
         | Inr is_get \<Rightarrow>
             if is_get then
               (case path_id event of
                  Inl x \<Rightarrow> (Inl x, w)
                | Inr item_id \<Rightarrow> get_item w item_id)
             else
               (case method_and_prefix http_method ''DELETE'' path of
                  Inl x \<Rightarrow> (Inl x, w)
                | Inr is_delete \<Rightarrow>
                    if is_delete then
                      (case path_id event of
                         Inl x \<Rightarrow> (Inl x, w)
                       | Inr item_id \<Rightarrow> delete_item w item_id)
                    else
                      (Inr \<lparr>statusCode = 404,
                            headers = [(''Content-Type'', ''application/json''),
                                       (''Access-Control-Allow-Origin'', ''*'')],
                            body = json_dumps (PDict [(''error'', PStr ''Not found'')])\<rparr>, w))))"

text \<open>
  \<^verbatim>\<open>lambda_handler\<close> (its \<open>context\<close> argument is never read). The two subscripts
  \<^verbatim>\<open>event['httpMethod']\<close> and \<^verbatim>\<open>event['path']\<close> stand before the \<^verbatim>\<open>try\<close>: an
  exception of theirs leaves the handler (\<open>Inl\<close>). An exception of the dispatch is
  caught by \<^verbatim>\<open>except Exception\<close> and answered with status 500.
\<close>

definition lambda_handler :: "env \<Rightarrow> world \<Rightarrow> pydict \<Rightarrow> exn + (response \<times> world)" where
  "lambda_handler e w event =
     (case dict_getitem event ''httpMethod'' of
        Inl x \<Rightarrow> Inl x
      | Inr http_method \<Rightarrow>
          (case dict_getitem event ''path'' of
             Inl x \<Rightarrow> Inl x
           | Inr path \<Rightarrow>
               (case dispatch e w event http_method path of
                  (Inr r, w') \<Rightarrow> Inr (r, w')
                | (Inl x, w') \<Rightarrow>
                    Inr (\<lparr>statusCode = 500,
                          headers = [(''Content-Type'', ''application/json''),
                                     (''Access-Control-Allow-Origin'', ''*'')],
                          body = json_dumps (PDict [(''error'', PStr (str_exn x))])\<rparr>, w'))))"

section \<open>Words of the specification\<close>

text \<open>
  The routing table of the specification: GET \<open>/items\<close>, POST \<open>/items\<close>,
  GET \<open>/items/{id}\<close> and DELETE \<open>/items/{id}\<close>. A path is of the form
  \<open>/items/{id}\<close> when it is \<open>/items/\<close> followed by one identifier: a path segment that
  is not empty and holds no slash. A path that is not a string matches no pattern.
\<close>

definition item_path :: "string \<Rightarrow> bool" where
  "item_path p =
     (startswith p ''/items/'' \<and> drop 7 p \<noteq> [] \<and> CHR ''/'' \<notin> set (drop 7 p))"

fun spec_routed :: "pyval \<Rightarrow> pyval \<Rightarrow> bool" where
  "spec_routed http_method (PStr p) =
     ((http_method = PStr ''GET'' \<and> p = ''/items'')
      \<or> (http_method = PStr ''POST'' \<and> p = ''/items'')
      \<or> (http_method = PStr ''GET'' \<and> item_path p)
      \<or> (http_method = PStr ''DELETE'' \<and> item_path p))"
| "spec_routed http_method v = False"

text \<open>
  The four tests of the handler, as the source writes them: the two paths of the form
  \<open>/items/{id}\<close> are tested by the prefix \<open>/items/\<close> alone, whatever follows it.
\<close>

fun has_items_prefix :: "pyval \<Rightarrow> bool" where
  "has_items_prefix (PStr p) = startswith p ''/items/''"
| "has_items_prefix v = False"

definition prefix_routed :: "pyval \<Rightarrow> pyval \<Rightarrow> bool" where
  "prefix_routed http_method path =
     ((http_method = PStr ''GET'' \<and> path = PStr ''/items'')
      \<or> (http_method = PStr ''POST'' \<and> path = PStr ''/items'')
      \<or> (http_method = PStr ''GET'' \<and> has_items_prefix path)
      \<or> (http_method = PStr ''DELETE'' \<and> has_items_prefix path))"


text \<open>The item \<^verbatim>\<open>create_item\<close> builds from the parsed body \<open>d\<close> in the world \<open>w\<close>.\<close>

definition new_item :: "env \<Rightarrow> world \<Rightarrow> pydict \<Rightarrow> pydict" where
  "new_item e w d =
     [(''id'', PStr (uuid4 e (uuid_draws w))),
      (''name'', case map_of d ''name'' of None \<Rightarrow> PStr [] | Some v \<Rightarrow> v),
      (''description'', case map_of d ''description'' of None \<Rightarrow> PStr [] | Some v \<Rightarrow> v),
      (''created_at'', PStr (now_iso e (clock_reads w))),
      (''updated_at'', PStr (now_iso e (Suc (clock_reads w))))]"

text \<open>A value that is a string composed entirely of decimal digits, \<open>0\<close> to \<open>9\<close>.\<close>

fun is_decimal_str :: "pyval \<Rightarrow> bool" where
  "is_decimal_str (PStr s) = list_all is_decimal_char s"
| "is_decimal_str v = False"

text \<open>\<^verbatim>\<open>_transform_item\<close> applied to each record of a list in turn, the clock passed
  from one to the next: what the specification calls transforming each record.\<close>

fun transform_each :: "env \<Rightarrow> nat \<Rightarrow> pydict list \<Rightarrow> exn + (pydict list \<times> nat)" where
  "transform_each e n [] = Inr ([], n)"
| "transform_each e n (item # rest) =
     (case transform_item e n item of
        Inl x \<Rightarrow> Inl x
      | Inr (item', n') \<Rightarrow>
          (case transform_each e n' rest of
             Inl x \<Rightarrow> Inl x
           | Inr (rest', n'') \<Rightarrow> Inr (item' # rest', n'')))"

text \<open>A record has every one of the field names as a key.\<close>

definition has_fields :: "string list \<Rightarrow> pydict \<Rightarrow> bool" where
  "has_fields names item = list_all (\<lambda>f. map_of item f \<noteq> None) names"

section \<open>A sample environment\<close>

text \<open>
  One concrete environment, for the examples that follow. Its file system has no
  \<open>config.json\<close>, a \<open>locked.json\<close> that may not be read and a \<open>broken.json\<close> that
  holds \<open>{oops\<close>; its parser answers as \<^verbatim>\<open>json.loads\<close> does on the two texts the
  examples use (\<open>{}\<close> is the empty object, \<open>{oops\<close> and any other text it is asked
  about is refused); the first four readings of its clock are all different, and so
  are its first two identifiers; its table refuses an item that holds a float.
\<close>

fun is_float :: "pyval \<Rightarrow> bool" where
  "is_float (PFloat r) = True"
| "is_float v = False"

definition sample_env :: env where
  "sample_env =
     \<lparr>fs_read = (\<lambda>p. if p = ''locked.json'' then Inl PermissionError
                       else if p = ''broken.json'' then Inr ''{oops''
                       else Inl FileNotFoundError),
      json_parse = (\<lambda>t. if t = ''{}'' then Inr (PDict [])
                          else Inl ''Expecting property name enclosed in double quotes: line 1 column 2 (char 1)''),
      time_time = (\<lambda>n. 1700000000 + int n),
      now_iso = (\<lambda>n. if n = 0 then ''2024-05-01T12:00:00.000417''
                       else if n = 1 then ''2024-05-01T12:00:00.000423''
                       else if n = 2 then ''2024-05-01T12:00:07.120001''
                       else ''2024-05-01T12:00:07.120009''),
      uuid4 = (\<lambda>n. if n = 0 then ''0b0e7f6c-58cb-4d3c-9a25-6d1c3f0a9e11''
                     else ''5a6d2e90-1f47-4c8b-b3a1-c2d9e8f70a34''),
      put_item_raises = (\<lambda>item. if list_ex (\<lambda>kv. is_float (snd kv)) item
                                then Some (TypeError ''Float types are not supported. Use Decimal types instead.'')
                                else None)\<rparr>"

definition empty_world :: world where
  "empty_world = \<lparr>table = [], clock_reads = 0, uuid_draws = 0\<rparr>"

definition pen_item :: pydict where
  "pen_item = [(''id'', PStr ''a1''), (''name'', PStr ''pen''), (''description'', PStr ''blue''),
               (''created_at'', PStr ''2024-04-30T08:00:00.000100''),
               (''updated_at'', PStr ''2024-04-30T08:00:00.000103'')]"

definition pen_world :: world where
  "pen_world = \<lparr>table = [(PStr ''a1'', pen_item)], clock_reads = 2, uuid_draws = 1\<rparr>"

text \<open>The item a first creation with the body \<open>{}\<close> makes in the sample environment.\<close>

definition first_item :: pydict where
  "first_item = [(''id'', PStr ''0b0e7f6c-58cb-4d3c-9a25-6d1c3f0a9e11''), (''name'', PStr []),
                 (''description'', PStr []),
                 (''created_at'', PStr ''2024-05-01T12:00:00.000417''),
                 (''updated_at'', PStr ''2024-05-01T12:00:00.000423'')]"

definition post_event :: "string \<Rightarrow> pydict" where
  "post_event text =
     [(''httpMethod'', PStr ''POST''), (''path'', PStr ''/items''), (''body'', PStr text)]"

definition superscript_record :: pydict where
  "superscript_record = [(''timestamp'', PInt 1700000000), (''unit'', PStr [CHR 0xB2])]"

section \<open>The resource handler: what every operation returns\<close>

lemma startswith_iff: "startswith s p \<longleftrightarrow> (\<exists>t. s = p @ t)"
  unfolding startswith_def by (metis append_eq_conv_conj append_take_drop_id)

lemma get_all_items_envelope:
  "get_all_items w = (Inr r, w') \<Longrightarrow>
     headers r = [(''Content-Type'', ''application/json''), (''Access-Control-Allow-Origin'', ''*'')]
     \<and> statusCode r = 200"
  by (auto simp: get_all_items_def Let_def)

lemma create_item_envelope:
  "create_item e w b = (Inr r, w') \<Longrightarrow>
     headers r = [(''Content-Type'', ''application/json''), (''Access-Control-Allow-Origin'', ''*'')]
     \<and> (statusCode r = 400 \<or> statusCode r = 201)"
  by (auto simp: create_item_def Let_def split: if_splits sum.splits option.splits)

lemma get_item_envelope:
  "get_item w i = (Inr r, w') \<Longrightarrow>
     headers r = [(''Content-Type'', ''application/json''), (''Access-Control-Allow-Origin'', ''*'')]
     \<and> (statusCode r = 404 \<or> statusCode r = 200)"
  by (auto simp: get_item_def split: option.splits)

lemma delete_item_envelope:
  "delete_item w i = (Inr r, w') \<Longrightarrow>
     headers r = [(''Content-Type'', ''application/json''), (''Access-Control-Allow-Origin'', ''*'')]
     \<and> (statusCode r = 404 \<or> statusCode r = 200)"
  by (auto simp: delete_item_def split: option.splits)

lemma dispatch_envelope:
  assumes "dispatch e w event m p = (Inr r, w')"
  shows "headers r = [(''Content-Type'', ''application/json''), (''Access-Control-Allow-Origin'', ''*'')]
     \<and> statusCode r \<in> {200, 201, 400, 404}"
  using assms unfolding dispatch_def
  by (auto split: if_splits sum.splits
      dest!: get_all_items_envelope create_item_envelope get_item_envelope delete_item_envelope)

text \<open>With both keys in the event the handler always answers with an envelope.\<close>

lemma lambda_handler_returns:
  "map_of event ''httpMethod'' = Some m \<Longrightarrow> map_of event ''path'' = Some p \<Longrightarrow>
     \<exists>r w'. lambda_handler e w event = Inr (r, w')"
  by (auto simp: lambda_handler_def dict_getitem_def split: prod.splits sum.splits)

text \<open>A deletion followed by a fetch of the same identifier, both through the handler.\<close>

lemma lambda_handler_delete_then_get:
  assumes "map_of (table w) i \<noteq> None"
    and "map_of ev_del ''httpMethod'' = Some (PStr ''DELETE'')"
    and "map_of ev_del ''path'' = Some (PStr (''/items/'' @ t))"
    and "map_of ev_del ''pathParameters'' = Some (PDict [(''id'', i)])"
    and "map_of ev_get ''httpMethod'' = Some (PStr ''GET'')"
    and "map_of ev_get ''path'' = Some (PStr (''/items/'' @ t))"
    and "map_of ev_get ''pathParameters'' = Some (PDict [(''id'', i)])"
  shows "\<exists>r w'. lambda_handler e w ev_del = Inr (r, w') \<and> statusCode r = 200
           \<and> (\<exists>r'. lambda_handler e w' ev_get = Inr (r', w') \<and> statusCode r' = 404
                   \<and> body r' = json_dumps (PDict [(''error'', PStr ''Item not found'')]))"
  using assms
  by (auto simp: lambda_handler_def dict_getitem_def dispatch_def method_and_prefix_def
      startswith_def path_id_def delete_item_def get_item_def delete_conv')

section \<open>The claims about the resource handler\<close>

text \<open>
  Claim C9. An event that lacks the key \<open>httpMethod\<close> or the key \<open>path\<close> makes
  \<^verbatim>\<open>lambda_handler\<close> raise: the result is the exception (the \<open>KeyError\<close> of the first
  of the two subscripts that fails) and no envelope, whatever the environment and the
  table; the answer with status 500 is not given, the subscripts standing before the
  \<^verbatim>\<open>try\<close>.
\<close>

theorem lambda_handler_missing_key_raises:
  "map_of event ''httpMethod'' = None \<or> map_of event ''path'' = None \<Longrightarrow>
     lambda_handler e w event =
       Inl (KeyError (if map_of event ''httpMethod'' = None then ''httpMethod'' else ''path''))"
  by (auto simp: lambda_handler_def dict_getitem_def split: option.splits)

theorem lambda_handler_missing_key_raises_witness:
  "map_of [(''path'', PStr ''/items'')] ''httpMethod'' = None \<and>
   lambda_handler sample_env empty_world [(''path'', PStr ''/items'')] = Inl (KeyError ''httpMethod'') \<and>
   map_of [(''httpMethod'', PStr ''GET'')] ''path'' = None \<and>
   lambda_handler sample_env pen_world [(''httpMethod'', PStr ''GET'')] = Inl (KeyError ''path'')"
  using lambda_handler_missing_key_raises [of "[(''path'', PStr ''/items'')]" sample_env empty_world]
        lambda_handler_missing_key_raises [of "[(''httpMethod'', PStr ''GET'')]" sample_env pen_world]
  by simp

text \<open>
  Claim C8, as the code has it. Once the event has given its \<open>httpMethod\<close> and its
  \<open>path\<close>, the handler returns an envelope whatever happens, and every exception the
  dispatch raises (a missing \<open>body\<close> or \<open>pathParameters\<close>, a body that does not parse, a
  path or a parsed body of the wrong type) is answered with status 500 and a body that
  carries \<^verbatim>\<open>str(e)\<close>, in the world the dispatch had reached. The claim as stated also
  says that no exception leaves the handler: the \<open>KeyError\<close> of an event without
  \<open>httpMethod\<close> does, as the second theorem shows on the empty event.
\<close>

theorem lambda_handler_catches_dispatch:
  "map_of event ''httpMethod'' = Some m \<Longrightarrow> map_of event ''path'' = Some p \<Longrightarrow>
     (\<exists>r w'. lambda_handler e w event = Inr (r, w')) \<and>
     (\<forall>x w'. dispatch e w event m p = (Inl x, w') \<longrightarrow>
        lambda_handler e w event =
          Inr (\<lparr>statusCode = 500,
                headers = [(''Content-Type'', ''application/json''),
                           (''Access-Control-Allow-Origin'', ''*'')],
                body = json_dumps (PDict [(''error'', PStr (str_exn x))])\<rparr>, w'))"
  by (auto simp: lambda_handler_def dict_getitem_def split: prod.splits sum.splits)

theorem lambda_handler_catches_dispatch_witness:
  "lambda_handler sample_env pen_world [(''httpMethod'', PStr ''GET''), (''path'', PStr ''/items/a1'')] =
     Inr (\<lparr>statusCode = 500,
           headers = [(''Content-Type'', ''application/json''), (''Access-Control-Allow-Origin'', ''*'')],
           body = json_dumps (PDict [(''error'', PStr (str_exn (KeyError ''pathParameters'')))])\<rparr>,
          pen_world)"
proof -
  have raised:
    "dispatch sample_env pen_world [(''httpMethod'', PStr ''GET''), (''path'', PStr ''/items/a1'')]
       (PStr ''GET'') (PStr ''/items/a1'') = (Inl (KeyError ''pathParameters''), pen_world)"
    by (simp add: dispatch_def method_and_prefix_def startswith_def path_id_def dict_getitem_def)
  from lambda_handler_catches_dispatch
         [of "[(''httpMethod'', PStr ''GET''), (''path'', PStr ''/items/a1'')]"
             "PStr ''GET''" "PStr ''/items/a1''" sample_env pen_world] raised
  show ?thesis by simp
qed

theorem lambda_handler_key_error_escapes:
  "lambda_handler sample_env empty_world [] = Inl (KeyError ''httpMethod'')"
  by (simp add: lambda_handler_def dict_getitem_def)

text \<open>
  Claim C10. A POST to \<open>/items\<close> whose body is not empty and on which \<^verbatim>\<open>json.loads\<close>
  raises (a string that is not JSON text, with the parser's message, or a value that is
  no string at all) is answered with status 500, not 400, the body carrying the text of
  the exception; nothing of the world has changed, the table included.
\<close>

theorem lambda_handler_invalid_json_500:
  "map_of event ''httpMethod'' = Some (PStr ''POST'') \<Longrightarrow>
   map_of event ''path'' = Some (PStr ''/items'') \<Longrightarrow>
   map_of event ''body'' = Some b \<Longrightarrow> truthy b \<Longrightarrow> loads_value e b = Inl x \<Longrightarrow>
     lambda_handler e w event =
       Inr (\<lparr>statusCode = 500,
             headers = [(''Content-Type'', ''application/json''),
                        (''Access-Control-Allow-Origin'', ''*'')],
             body = json_dumps (PDict [(''error'', PStr (str_exn x))])\<rparr>, w)"
  by (simp add: lambda_handler_def dict_getitem_def dispatch_def create_item_def)

theorem lambda_handler_invalid_json_500_witness:
  "lambda_handler sample_env pen_world (post_event ''{oops'') =
     Inr (\<lparr>statusCode = 500,
           headers = [(''Content-Type'', ''application/json''), (''Access-Control-Allow-Origin'', ''*'')],
           body = json_dumps (PDict [(''error'',
             PStr ''Expecting property name enclosed in double quotes: line 1 column 2 (char 1)'')])\<rparr>,
          pen_world)"
  using lambda_handler_invalid_json_500
          [of "post_event ''{oops''" "PStr ''{oops''" sample_env
              "JSONDecodeError ''Expecting property name enclosed in double quotes: line 1 column 2 (char 1)''"
              pen_world]
  by (simp add: post_event_def sample_env_def json_loads_def)


lemma prefix_routed_not_spec_routed:
  "prefix_routed m pth \<and> \<not> spec_routed m pth \<longleftrightarrow>
     (m = PStr ''GET'' \<or> m = PStr ''DELETE'') \<and>
     (\<exists>p. pth = PStr p \<and> startswith p ''/items/'' \<and> \<not> item_path p)"
  by (cases pth) (auto simp: prefix_routed_def item_path_def startswith_def)




text \<open>
  Claim C7. Every envelope the handler returns, on any event, in any world and for any
  outcome, has a status code (one of 200, 201, 400, 404, 500), a body and headers that
  hold \<open>Access-Control-Allow-Origin: *\<close> and \<open>Content-Type: application/json\<close>.
\<close>

theorem lambda_handler_envelope_headers:
  "lambda_handler e w event = Inr (r, w') \<Longrightarrow>
     map_of (headers r) ''Access-Control-Allow-Origin'' = Some ''*'' \<and>
     map_of (headers r) ''Content-Type'' = Some ''application/json'' \<and>
     statusCode r \<in> {200, 201, 400, 404, 500}"
proof -
  assume run: "lambda_handler e w event = Inr (r, w')"
  then obtain m p where m: "dict_getitem event ''httpMethod'' = Inr m"
    and p: "dict_getitem event ''path'' = Inr p"
    by (auto simp: lambda_handler_def split: sum.splits)
  show ?thesis
  proof (cases "dispatch e w event m p")
    case (Pair res w1)
    show ?thesis
    proof (cases res)
      case (Inl x)
      with Pair run m p show ?thesis by (auto simp: lambda_handler_def)
    next
      case (Inr r1)
      with Pair run m p have "r1 = r" by (auto simp: lambda_handler_def)
      with Pair Inr dispatch_envelope [of e w event m p r w1] show ?thesis by auto
    qed
  qed
qed

theorem lambda_handler_envelope_headers_witness:
  "lambda_handler sample_env pen_world [(''httpMethod'', PStr ''GET''), (''path'', PStr ''/items'')] =
     Inr (\<lparr>statusCode = 200,
           headers = [(''Content-Type'', ''application/json''), (''Access-Control-Allow-Origin'', ''*'')],
           body = json_dumps (PDict [(''items'', PList [PDict pen_item]), (''count'', PInt 1)])\<rparr>,
          pen_world) \<and>
   map_of [(''Content-Type'', ''application/json''), (''Access-Control-Allow-Origin'', ''*'')]
     ''Access-Control-Allow-Origin'' = Some ''*''"
proof -
  have run:
    "lambda_handler sample_env pen_world [(''httpMethod'', PStr ''GET''), (''path'', PStr ''/items'')] =
       Inr (\<lparr>statusCode = 200,
             headers = [(''Content-Type'', ''application/json''), (''Access-Control-Allow-Origin'', ''*'')],
             body = json_dumps (PDict [(''items'', PList [PDict pen_item]), (''count'', PInt 1)])\<rparr>,
            pen_world)"
    by (simp add: lambda_handler_def dict_getitem_def dispatch_def get_all_items_def pen_world_def)
  from lambda_handler_envelope_headers [OF run] run show ?thesis by simp
qed

text \<open>
  Claim C5. \<^verbatim>\<open>delete_item\<close> looks the identifier up first. When the table has no item
  under it, the answer is status 404 with \<open>Item not found\<close> under \<open>error\<close> and the world
  is unchanged. When it has one, the item is deleted, the answer is status 200 with the
  message \<open>Item deleted successfully\<close>, and \<^verbatim>\<open>get_item\<close> on the same identifier in the
  world the deletion left answers 404 with \<open>Item not found\<close>.
  (\<open>lambda_handler_delete_then_get\<close> above is the same sequence through the handler.)
\<close>

theorem delete_item_then_get_item:
  "(map_of (table w) item_id = None \<longrightarrow>
      delete_item w item_id =
        (Inr \<lparr>statusCode = 404,
              headers = [(''Content-Type'', ''application/json''),
                         (''Access-Control-Allow-Origin'', ''*'')],
              body = json_dumps (PDict [(''error'', PStr ''Item not found'')])\<rparr>, w)) \<and>
   (map_of (table w) item_id \<noteq> None \<longrightarrow>
      delete_item w item_id =
        (Inr \<lparr>statusCode = 200,
              headers = [(''Content-Type'', ''application/json''),
                         (''Access-Control-Allow-Origin'', ''*'')],
              body = json_dumps (PDict [(''message'', PStr ''Item deleted successfully'')])\<rparr>,
         w\<lparr>table := AList.delete item_id (table w)\<rparr>) \<and>
      get_item (snd (delete_item w item_id)) item_id =
        (Inr \<lparr>statusCode = 404,
              headers = [(''Content-Type'', ''application/json''),
                         (''Access-Control-Allow-Origin'', ''*'')],
              body = json_dumps (PDict [(''error'', PStr ''Item not found'')])\<rparr>,
         snd (delete_item w item_id)))"
  by (auto simp: delete_item_def get_item_def delete_conv' split: option.splits)

theorem delete_item_then_get_item_witness:
  "delete_item pen_world (PStr ''a1'') =
     (Inr \<lparr>statusCode = 200,
           headers = [(''Content-Type'', ''application/json''), (''Access-Control-Allow-Origin'', ''*'')],
           body = json_dumps (PDict [(''message'', PStr ''Item deleted successfully'')])\<rparr>,
      pen_world\<lparr>table := []\<rparr>) \<and>
   get_item (pen_world\<lparr>table := []\<rparr>) (PStr ''a1'') =
     (Inr \<lparr>statusCode = 404,
           headers = [(''Content-Type'', ''application/json''), (''Access-Control-Allow-Origin'', ''*'')],
           body = json_dumps (PDict [(''error'', PStr ''Item not found'')])\<rparr>,
      pen_world\<lparr>table := []\<rparr>) \<and>
   delete_item pen_world (PStr ''b2'') =
     (Inr \<lparr>statusCode = 404,
           headers = [(''Content-Type'', ''application/json''), (''Access-Control-Allow-Origin'', ''*'')],
           body = json_dumps (PDict [(''error'', PStr ''Item not found'')])\<rparr>,
      pen_world)"
  using delete_item_then_get_item [of pen_world "PStr ''a1''"]
        delete_item_then_get_item [of pen_world "PStr ''b2''"]
  by (simp add: pen_world_def delete_item_def get_item_def)

text \<open>
  What \<^verbatim>\<open>create_item\<close> does with a parsed mapping: it builds \<open>new_item\<close> and hands it
  to \<^verbatim>\<open>put_item\<close>. When the table refuses the item the exception leaves
  \<^verbatim>\<open>create_item\<close> (the handler answers 500) and nothing is stored; an answer of status
  201 is given only for an item that was built from a mapping and that the table accepted.
\<close>

lemma create_item_refused:
  "truthy b \<Longrightarrow> loads_value e b = Inr (PDict d) \<Longrightarrow> put_item_raises e (new_item e w d) = Some x \<Longrightarrow>
     fst (create_item e w b) = Inl x \<and> table (snd (create_item e w b)) = table w"
  by (simp add: create_item_def new_item_def Let_def)

lemma create_item_created:
  assumes "create_item e w b = (Inr r, w')" and "statusCode r = 201"
  shows "\<exists>d. loads_value e b = Inr (PDict d) \<and> put_item_raises e (new_item e w d) = None
           \<and> body r = json_dumps (PDict (new_item e w d))
           \<and> table w' = AList.update (PStr (uuid4 e (uuid_draws w))) (new_item e w d) (table w)"
proof -
  from assms have t: "truthy b"
    by (auto simp: create_item_def split: if_splits)
  with assms(1) obtain data where data: "loads_value e b = Inr data"
    by (cases "loads_value e b") (auto simp: create_item_def)
  show ?thesis
  proof (cases data)
    case (PDict d)
    with assms t data show ?thesis
      by (auto simp: create_item_def new_item_def Let_def split: option.splits)
  qed (use assms t data in \<open>auto simp: create_item_def Let_def\<close>)
qed

text \<open>
  Claim C1, as the code has it. A POST to \<open>/items\<close> whose body is a non-empty string that
  parses to a mapping, and whose item the table accepts, is answered with status 201;
  the item returned is the item stored under its identifier; its \<open>created_at\<close> is one
  reading of the clock and its \<open>updated_at\<close> is the next reading, \<^verbatim>\<open>datetime.now()\<close>
  being called once for each. The two are equal only when the two readings are: the claim
  as stated has them equal for every creation, and the third theorem below is a creation
  where they differ.
\<close>

theorem create_item_two_clock_readings:
  "map_of event ''httpMethod'' = Some (PStr ''POST'') \<Longrightarrow>
   map_of event ''path'' = Some (PStr ''/items'') \<Longrightarrow>
   map_of event ''body'' = Some (PStr s) \<Longrightarrow> s \<noteq> [] \<Longrightarrow> json_parse e s = Inr (PDict d) \<Longrightarrow>
   put_item_raises e (new_item e w d) = None \<Longrightarrow>
     (let uid = uuid4 e (uuid_draws w);
          item = new_item e w d;
          w' = w\<lparr>uuid_draws := Suc (uuid_draws w),
                 clock_reads := Suc (Suc (clock_reads w)),
                 table := AList.update (PStr uid) item (table w)\<rparr>
      in lambda_handler e w event =
           Inr (\<lparr>statusCode = 201,
                 headers = [(''Content-Type'', ''application/json''),
                            (''Access-Control-Allow-Origin'', ''*'')],
                 body = json_dumps (PDict item)\<rparr>, w')
         \<and> map_of (table w') (PStr uid) = Some item
         \<and> map_of item ''created_at'' = Some (PStr (now_iso e (clock_reads w)))
         \<and> map_of item ''updated_at'' = Some (PStr (now_iso e (Suc (clock_reads w)))))"
  by (simp add: lambda_handler_def dict_getitem_def dispatch_def create_item_def json_loads_def
      new_item_def Let_def update_conv')

theorem create_item_two_clock_readings_witness:
  "lambda_handler sample_env pen_world (post_event ''{}'') =
     Inr (\<lparr>statusCode = 201,
           headers = [(''Content-Type'', ''application/json''), (''Access-Control-Allow-Origin'', ''*'')],
           body = json_dumps (PDict
             [(''id'', PStr ''5a6d2e90-1f47-4c8b-b3a1-c2d9e8f70a34''), (''name'', PStr []),
              (''description'', PStr []),
              (''created_at'', PStr ''2024-05-01T12:00:07.120001''),
              (''updated_at'', PStr ''2024-05-01T12:00:07.120009'')])\<rparr>,
          \<lparr>table = [(PStr ''a1'', pen_item),
                    (PStr ''5a6d2e90-1f47-4c8b-b3a1-c2d9e8f70a34'',
                     [(''id'', PStr ''5a6d2e90-1f47-4c8b-b3a1-c2d9e8f70a34''), (''name'', PStr []),
                      (''description'', PStr []),
                      (''created_at'', PStr ''2024-05-01T12:00:07.120001''),
                      (''updated_at'', PStr ''2024-05-01T12:00:07.120009'')])],
           clock_reads = 4, uuid_draws = 2\<rparr>)"
  using create_item_two_clock_readings [of "post_event ''{}''" "''{}''" sample_env "[]" pen_world]
  by (simp add: post_event_def sample_env_def pen_world_def new_item_def Let_def)

theorem create_item_timestamps_differ:
  "lambda_handler sample_env empty_world (post_event ''{}'') =
     Inr (\<lparr>statusCode = 201,
           headers = [(''Content-Type'', ''application/json''), (''Access-Control-Allow-Origin'', ''*'')],
           body = json_dumps (PDict first_item)\<rparr>,
          \<lparr>table = [(PStr ''0b0e7f6c-58cb-4d3c-9a25-6d1c3f0a9e11'', first_item)],
           clock_reads = 2, uuid_draws = 1\<rparr>) \<and>
   map_of first_item ''created_at'' \<noteq> map_of first_item ''updated_at''"
  by (simp add: lambda_handler_def dict_getitem_def dispatch_def create_item_def json_loads_def
      post_event_def sample_env_def empty_world_def first_item_def Let_def)

section \<open>The record transformer: validation, filtering and the fixed points of the transformation\<close>

text \<open>With a configuration whose \<open>required_fields\<close> (the empty list when the key is
  absent) is a list of field names, the validation never raises and tests the keys.\<close>

lemma all_in_names: "all_in (map PStr names) item = Inr (has_fields names item)"
  by (induction names) (auto simp: has_fields_def)

lemma validate_item_names:
  "py_get cfg ''required_fields'' (PList []) = Inr (PList (map PStr names)) \<Longrightarrow>
   validate_item cfg item = Inr (has_fields names item)"
  by (simp add: validate_item_def all_in_names)

lemma process_loop_filter:
  assumes "py_get cfg ''required_fields'' (PList []) = Inr (PList (map PStr names))"
  shows "process_loop e cfg n data processed =
     (case transform_each e n (filter (has_fields names) data) of
        Inl x \<Rightarrow> Inl x
      | Inr (out, n') \<Rightarrow> Inr (processed @ out, n'))"
proof (induction data arbitrary: n processed)
  case Nil
  show ?case by simp
next
  case (Cons item rest)
  show ?case
  proof (cases "has_fields names item")
    case False
    then show ?thesis
      using Cons.IH [of n processed] by (simp add: validate_item_names [OF assms])
  next
    case True
    show ?thesis
    proof (cases "transform_item e n item")
      case (Inl x)
      with True show ?thesis by (simp add: validate_item_names [OF assms])
    next
      case (Inr res)
      obtain item' n' where res: "res = (item', n')" by (cases res)
      show ?thesis
        using True Inr res Cons.IH [of n' "processed @ [item']"]
        by (auto simp: validate_item_names [OF assms] split: sum.splits)
    qed
  qed
qed

text \<open>
  What \<^verbatim>\<open>process_data\<close> computes: the records that have every required field, in the
  order of the batch, each handed to \<^verbatim>\<open>_transform_item\<close>; a record that lacks a field
  leaves no trace in the result. The result is the list of the transformed records when
  every transformation returns, and the exception of the first one that raises otherwise.
\<close>

lemma process_data_filter:
  assumes "py_get cfg ''required_fields'' (PList []) = Inr (PList (map PStr names))"
  shows "process_data e cfg n data = transform_each e n (filter (has_fields names) data)"
  unfolding process_data_def process_loop_filter [OF assms]
  by (auto split: sum.splits)

lemma transform_each_pointwise:
  "transform_each e n rs = Inr (out, n') \<Longrightarrow>
     list_all2 (\<lambda>r r'. \<exists>k k'. transform_item e k r = Inr (r', k')) rs out"
proof (induction rs arbitrary: n out)
  case Nil
  then show ?case by simp
next
  case (Cons r rs)
  then show ?case
    by (auto split: sum.splits prod.splits)
qed

text \<open>The conversion loop never removes a key.\<close>

lemma convert_items_keys:
  "convert_items es d = Inr out \<Longrightarrow> fst ` set d \<subseteq> fst ` set out"
proof (induction es arbitrary: d)
  case Nil
  then show ?case by simp
next
  case (Cons kv es)
  obtain k v where kv: "kv = (k, v)" by (cases kv)
  show ?case
  proof (cases "is_digit_str v")
    case False
    then have "convert_items es d = Inr out"
      using Cons.prems unfolding kv by (cases v) auto
    then show ?thesis by (rule Cons.IH)
  next
    case True
    then obtain s where s: "v = PStr s" "isdigit s" by (cases v) auto
    with Cons.prems obtain i where i: "py_int s = Inr i"
      unfolding kv by (cases "py_int s") auto
    with Cons.prems s have "convert_items es (AList.update k (PInt i) d) = Inr out"
      unfolding kv by simp
    from Cons.IH [OF this] show ?thesis by (auto simp: dom_update)
  qed
qed

lemma transform_item_keeps_fields:
  assumes "transform_item e n item = Inr (item', n')" and "has_fields names item"
  shows "has_fields names item'"
proof -
  obtain item1 n1 where a: "add_timestamp e n item = (item1, n1)"
    by (cases "add_timestamp e n item")
  with assms(1) have c: "convert_items item1 item1 = Inr item'"
    by (auto simp: transform_item_def split: sum.splits)
  from a have "item1 = item \<or> item1 = AList.update ''timestamp'' (PInt (time_time e n)) item"
    by (auto simp: add_timestamp_def split: if_splits)
  moreover have "fst ` set item \<subseteq> fst ` set (AList.update ''timestamp'' (PInt (time_time e n)) item)"
    unfolding dom_update by blast
  ultimately have "fst ` set item \<subseteq> fst ` set item1"
    by auto
  with convert_items_keys [OF c] have "fst ` set item \<subseteq> fst ` set item'" by blast
  with assms(2) show ?thesis
    unfolding has_fields_def list_all_iff map_of_eq_None_iff by blast
qed

lemma transform_each_keeps_fields:
  "transform_each e n rs = Inr (out, n') \<Longrightarrow> list_all (has_fields names) rs \<Longrightarrow>
     length out = length rs \<and> list_all (has_fields names) out"
proof (induction rs arbitrary: n out)
  case Nil
  then show ?case by simp
next
  case (Cons r rs)
  from Cons.prems(1) obtain r' n1 out' where
    r: "transform_item e n r = Inr (r', n1)" and rest: "transform_each e n1 rs = Inr (out', n')"
    and out: "out = r' # out'"
    by (auto split: sum.splits prod.splits)
  from Cons.IH [OF rest] Cons.prems(2) transform_item_keeps_fields [OF r] out
  show ?case by simp
qed

text \<open>The first testable property of the specification: the output is no longer than the
  input, and every record of it has all the required fields.\<close>

lemma process_data_output:
  assumes "py_get cfg ''required_fields'' (PList []) = Inr (PList (map PStr names))"
    and "process_data e cfg n data = Inr (out, n')"
  shows "length out \<le> length data \<and> list_all (has_fields names) out"
proof -
  from assms have t: "transform_each e n (filter (has_fields names) data) = Inr (out, n')"
    by (simp add: process_data_filter)
  have "list_all (has_fields names) (filter (has_fields names) data)"
    by (simp add: list_all_iff)
  from transform_each_keeps_fields [OF t this] show ?thesis
    by (metis length_filter_le)
qed

text \<open>The two examples of the specification.\<close>

lemma process_data_alice:
  "process_data e (PDict [(''required_fields'', PList [PStr ''id'', PStr ''name''])]) n
     [[(''id'', PStr ''1''), (''name'', PStr ''Alice''), (''score'', PStr ''95'')]] =
   Inr ([[(''id'', PInt 1), (''name'', PStr ''Alice''), (''score'', PInt 95),
          (''timestamp'', PInt (time_time e n))]], Suc n)"
  by (simp add: process_data_def validate_item_def transform_item_def add_timestamp_def isdigit_def
      is_digit_char_def is_decimal_char_def py_int_def digit_val_def)

lemma process_data_charlie:
  "process_data e (PDict [(''required_fields'', PList [PStr ''id'', PStr ''name'', PStr ''score''])]) n
     [[(''id'', PStr ''3''), (''name'', PStr ''Charlie'')]] = Inr ([], n)"
  by (simp add: process_data_def validate_item_def)

text \<open>
  The fixed points of the transformation. A record that has a \<open>timestamp\<close> and no value
  that \<^verbatim>\<open>isinstance(value, str) and value.isdigit()\<close> accepts comes back as it is, and
  no clock reading is taken.
\<close>

lemma convert_items_none:
  "list_all (\<lambda>kv. \<not> is_digit_str (snd kv)) es \<Longrightarrow> convert_items es item = Inr item"
proof (induction es)
  case Nil
  show ?case by simp
next
  case (Cons kv es)
  obtain k v where kv: "kv = (k, v)" by (cases kv)
  from Cons show ?case unfolding kv by (cases v) auto
qed

lemma transform_item_fixed:
  "map_of item ''timestamp'' \<noteq> None \<Longrightarrow> list_all (\<lambda>kv. \<not> is_digit_str (snd kv)) item \<Longrightarrow>
   transform_item e n item = Inr (item, n)"
  by (auto simp: transform_item_def add_timestamp_def convert_items_none)

text \<open>
  Whatever the transformation returns is such a fixed point: running it a second time
  yields the same record. The keys of a dictionary are distinct, which the loop needs to
  reach every entry by its key.
\<close>

lemma update_past_prefix:
  "k \<notin> fst ` set pre \<Longrightarrow> AList.update k v (pre @ xs) = pre @ AList.update k v xs"
  by (induction pre) auto

lemma convert_items_result:
  "distinct (map fst (pre @ es)) \<Longrightarrow> convert_items es (pre @ es) = Inr out \<Longrightarrow>
   \<exists>es'. out = pre @ es' \<and> map fst es' = map fst es
         \<and> list_all (\<lambda>kv. \<not> is_digit_str (snd kv)) es'"
proof (induction es arbitrary: pre out)
  case Nil
  then show ?case by simp
next
  case (Cons kv es)
  obtain k v where kv: "kv = (k, v)" by (cases kv)
  have notin: "k \<notin> fst ` set pre"
    using Cons.prems(1) unfolding kv by auto
  have dist: "\<And>v'. distinct (map fst ((pre @ [(k, v')]) @ es))"
    using Cons.prems(1) unfolding kv by auto
  show ?case
  proof (cases "is_digit_str v")
    case False
    then have "convert_items es ((pre @ [(k, v)]) @ es) = Inr out"
      using Cons.prems(2) unfolding kv by (cases v) auto
    from Cons.IH [OF dist this] obtain es' where
      "out = (pre @ [(k, v)]) @ es'" "map fst es' = map fst es"
      "list_all (\<lambda>kv. \<not> is_digit_str (snd kv)) es'"
      by blast
    with False show ?thesis unfolding kv
      by (intro exI [of _ "(k, v) # es'"]) simp
  next
    case True
    then obtain s where s: "v = PStr s" "isdigit s" by (cases v) auto
    with Cons.prems(2) obtain i where i: "py_int s = Inr i"
      unfolding kv by (cases "py_int s") auto
    have "AList.update k (PInt i) (pre @ (k, v) # es) = (pre @ [(k, PInt i)]) @ es"
      using notin by (simp add: update_past_prefix)
    then have "convert_items es ((pre @ [(k, PInt i)]) @ es) = Inr out"
      using Cons.prems(2) s i unfolding kv by simp
    from Cons.IH [OF dist this] obtain es' where
      "out = (pre @ [(k, PInt i)]) @ es'" "map fst es' = map fst es"
      "list_all (\<lambda>kv. \<not> is_digit_str (snd kv)) es'"
      by blast
    then show ?thesis unfolding kv
      by (intro exI [of _ "(k, PInt i) # es'"]) simp
  qed
qed

lemma add_timestamp_keys:
  "add_timestamp e n item = (item1, n1) \<Longrightarrow>
   map_of item1 ''timestamp'' \<noteq> None \<and> (distinct (map fst item) \<longrightarrow> distinct (map fst item1))"
  by (auto simp: add_timestamp_def update_conv' distinct_update split: if_splits)

lemma transform_item_twice:
  assumes "distinct (map fst item)" and "transform_item e n item = Inr (item', n')"
  shows "transform_item e m item' = Inr (item', m)"
proof -
  obtain item1 n1 where a: "add_timestamp e n item = (item1, n1)"
    by (cases "add_timestamp e n item")
  with assms(2) have c: "convert_items item1 item1 = Inr item'"
    by (auto simp: transform_item_def split: sum.splits)
  from add_timestamp_keys [OF a] assms(1) have ts: "map_of item1 ''timestamp'' \<noteq> None"
    and d: "distinct (map fst ([] @ item1))" by auto
  from convert_items_result [OF d] c obtain es' where
    es: "item' = es'" "map fst es' = map fst item1"
      "list_all (\<lambda>kv. \<not> is_digit_str (snd kv)) es'"
    by auto
  have "fst ` set item' = fst ` set item1"
    using es(1,2) by (metis set_map)
  with ts have "map_of item' ''timestamp'' \<noteq> None"
    by (simp add: map_of_eq_None_iff)
  with es show ?thesis by (simp add: transform_item_fixed)
qed

section \<open>The claims about the record transformer\<close>

text \<open>
  Claim C4. \<^verbatim>\<open>_load_config\<close> returns the empty mapping when no file is at the path.
  Every other failure of the read (the exception of \<^verbatim>\<open>open\<close> or of reading the file)
  and every failure of the parse leaves \<^verbatim>\<open>_load_config\<close> as the exception it is, and
  the construction of the \<open>DataProcessor\<close> fails with it.
\<close>

theorem load_config_absent_or_propagates:
  "(fs_read e path = Inl FileNotFoundError \<longrightarrow> load_config e path = Inr (PDict [])) \<and>
   (\<forall>x. fs_read e path = Inl x \<and> x \<noteq> FileNotFoundError \<longrightarrow>
        load_config e path = Inl x \<and> init e path = Inl x) \<and>
   (\<forall>text msg. fs_read e path = Inr text \<and> json_parse e text = Inl msg \<longrightarrow>
        load_config e path = Inl (JSONDecodeError msg) \<and> init e path = Inl (JSONDecodeError msg))"
  by (auto simp: load_config_def load_config_body_def json_loads_def init_def
      split: sum.splits exn.splits)

theorem load_config_absent_or_propagates_witness:
  "fs_read sample_env ''config.json'' = Inl FileNotFoundError \<and>
   load_config sample_env ''config.json'' = Inr (PDict []) \<and>
   load_config sample_env ''locked.json'' = Inl PermissionError \<and>
   load_config sample_env ''broken.json'' =
     Inl (JSONDecodeError ''Expecting property name enclosed in double quotes: line 1 column 2 (char 1)'')"
  using load_config_absent_or_propagates [of sample_env "''config.json''"]
        load_config_absent_or_propagates [of sample_env "''locked.json''"]
        load_config_absent_or_propagates [of sample_env "''broken.json''"]
  by (simp add: sample_env_def)

text \<open>
  Claim C3, at the input where the code departs from it. The sample record has a
  \<open>timestamp\<close> and one other field, whose value is the one-character string of the
  superscript two (U+00B2); no value of it is a string composed entirely of decimal
  digits. \<^verbatim>\<open>str.isdigit\<close> accepts that string and \<^verbatim>\<open>int\<close> refuses it: the
  transformation raises \<open>ValueError\<close>, where the claim has it return the record as it is.
  What holds is \<open>transform_item_fixed\<close> and \<open>transform_item_twice\<close> above.
\<close>

theorem transform_item_raises_on_superscript:
  "map_of superscript_record ''timestamp'' \<noteq> None \<and>
   list_all (\<lambda>kv. \<not> is_decimal_str (snd kv)) superscript_record \<and>
   transform_item e n superscript_record =
     Inl (ValueError (''invalid literal for int() with base 10: '' @ [CHR 0x27, CHR 0xB2, CHR 0x27]))"
  by (simp add: superscript_record_def transform_item_def add_timestamp_def isdigit_def
      is_digit_char_def is_decimal_char_def py_int_def)

text \<open>
  Claim C2, at the input where the code departs from it. With the empty configuration no
  field is required, so the record whose field \<open>id\<close> is the superscript three (U+00B3)
  is valid; its transformation raises \<open>ValueError\<close> (as for claim C3), and
  \<^verbatim>\<open>process_data\<close> raises with it, where the claim has it return the record
  transformed. What \<^verbatim>\<open>process_data\<close> computes is \<open>process_data_filter\<close> above, and
  what it returns when it returns is \<open>process_data_output\<close>.
\<close>

theorem process_data_raises_on_superscript:
  "validate_item (PDict []) [(''id'', PStr [CHR 0xB3])] = Inr True \<and>
   process_data e (PDict []) n [[(''id'', PStr [CHR 0xB3])]] =
     Inl (ValueError (''invalid literal for int() with base 10: '' @ [CHR 0x27, CHR 0xB3, CHR 0x27]))"
  by (simp add: process_data_def validate_item_def transform_item_def add_timestamp_def isdigit_def
      is_digit_char_def is_decimal_char_def py_int_def)

end
